theory Spec2Isabelle
  imports Complex_Main "HOL-Library.Word" "HOL-Library.Multiset"
begin

section \<open>The COCO batch generator of \<open>data/generate_coco_data.py\<close>\<close>

text \<open>
  A shallow embedding of the class \<open>CoCoDataGenrator\<close>. NumPy arrays are nested lists
  (an array of shape \<open>(h, w, c)\<close> is a list of \<open>h\<close> rows of \<open>w\<close> pixels of \<open>c\<close> values),
  Python exceptions are values of the type \<open>error\<close>, and the external collaborators
  (\<open>cv2.resize\<close>, \<open>skimage.io.imread\<close>, \<open>np.random.shuffle\<close>, the COCO index) are
  parameters. The scale factor, a Python float in the source, is an exact rational here.
\<close>

subsection \<open>Errors and integer casts\<close>

datatype error = ValueError | ZeroDivisionError | Cv2Error

definition bind_err :: "error + 'a \<Rightarrow> ('a \<Rightarrow> error + 'b) \<Rightarrow> error + 'b" where
  "bind_err m f = (case m of Inl e \<Rightarrow> Inl e | Inr x \<Rightarrow> f x)"

fun map_err :: "('a \<Rightarrow> error + 'b) \<Rightarrow> 'a list \<Rightarrow> error + 'b list" where
  "map_err f [] = Inr []"
| "map_err f (x # xs) =
     bind_err (f x) (\<lambda>y. bind_err (map_err f xs) (\<lambda>ys. Inr (y # ys)))"

text \<open>\<open>np.int8\<close> and \<open>np.int16\<close>: the value of the low 8 (16) bits, read as two's complement.\<close>

definition int8 :: "int \<Rightarrow> int" where
  "int8 x = sint (word_of_int x :: 8 word)"

definition int16 :: "int \<Rightarrow> int" where
  "int16 x = sint (word_of_int x :: 16 word)"

text \<open>Python's \<open>int(q)\<close> and the C cast of a float to an integer: towards zero.\<close>

definition py_trunc :: "rat \<Rightarrow> int" where
  "py_trunc q = (if q < 0 then \<lceil>q\<rceil> else \<lfloor>q\<rfloor>)"

subsection \<open>Arrays\<close>

type_synonym array2 = "int list list"
type_synonym array3 = "int list list list"

definition shape2 :: "'a list list \<Rightarrow> nat \<times> nat" where
  "shape2 m = (length m, case m of [] \<Rightarrow> 0 | r # _ \<Rightarrow> length r)"

definition shape3 :: "'a list list list \<Rightarrow> nat \<times> nat \<times> nat" where
  "shape3 a = (length a,
     (case a of [] \<Rightarrow> 0 | r # _ \<Rightarrow> length r),
     (case a of [] \<Rightarrow> 0 | r # _ \<Rightarrow> (case r of [] \<Rightarrow> 0 | p # _ \<Rightarrow> length p)))"


definition pad_to :: "nat \<Rightarrow> 'a \<Rightarrow> 'a list \<Rightarrow> 'a list" where
  "pad_to n z xs = take n xs @ replicate (n - length xs) z"

text \<open>
  \<open>blob = np.zeros((TH, TW, TC)); blob[0:h, 0:w, :] = src\<close> for \<open>src\<close> of shape
  \<open>(h, w, c)\<close>: the slice is clipped to the buffer, and NumPy raises ValueError when
  \<open>src\<close> does not have the shape of the clipped slice.
\<close>

definition place3 :: "nat \<times> nat \<times> nat \<Rightarrow> array3 \<Rightarrow> error + array3" where
  "place3 tgt src = (case tgt of (TH, TW, TC) \<Rightarrow> (case shape3 src of (h, w, c) \<Rightarrow>
     if h \<le> TH \<and> w \<le> TW \<and> c = TC
     then Inr (pad_to TH (replicate TW (replicate TC 0))
                 (map (pad_to TW (replicate TC 0)) src))
     else Inl ValueError))"

text \<open>\<open>blob = np.zeros((TH, TW, 1)); blob[0:h, 0:w, 0] = src\<close>, kept as a 2-d array.\<close>

definition place2 :: "nat \<times> nat \<Rightarrow> array2 \<Rightarrow> error + array2" where
  "place2 tgt src = (case tgt of (TH, TW) \<Rightarrow> (case shape2 src of (h, w) \<Rightarrow>
     if h \<le> TH \<and> w \<le> TW
     then Inr (pad_to TH (replicate TW 0) (map (pad_to TW 0) src))
     else Inl ValueError))"

subsection \<open>Configuration and collaborators\<close>

record config =
  img_shape :: "nat \<times> nat \<times> nat"
  batch_size :: nat
  max_instances :: nat
  include_crowd :: bool
  include_mask :: bool
  include_keypoint :: bool

text \<open>
  \<open>cv2.resize(a, None, None, fx=s, fy=s)\<close> on images and on float masks, and
  \<open>np.random.shuffle\<close> with its generator state.
\<close>

record env =
  resize_img :: "rat \<Rightarrow> array3 \<Rightarrow> error + array3"
  resize_msk :: "rat \<Rightarrow> array2 \<Rightarrow> error + rat list list"
  shuffle :: "nat \<Rightarrow> nat list \<Rightarrow> nat list \<times> nat"

subsection \<open>\<open>_resize_im\<close>\<close>

definition resize_boxes :: "rat \<Rightarrow> int list list \<Rightarrow> int list list" where
  "resize_boxes im_scale bboxes =
     map (map (\<lambda>x. int16 (py_trunc (of_int x * im_scale)))) bboxes"

definition resize_im ::
  "env \<Rightarrow> config \<Rightarrow> array3 \<Rightarrow> int list list \<Rightarrow> error + (array3 \<times> int list list)" where
  "resize_im ev cfg origin_im bboxes =
     (case shape3 origin_im of (H, W, C) \<Rightarrow>
        let im_size_max = max H W in
        if im_size_max = 0 then Inl ZeroDivisionError
        else
          let im_scale = of_nat (fst (img_shape cfg)) / of_nat im_size_max in
          bind_err (resize_img ev im_scale origin_im) (\<lambda>im_resize.
          bind_err (place3 (img_shape cfg) im_resize) (\<lambda>im_blob.
          Inr (im_blob, resize_boxes im_scale bboxes))))"

subsection \<open>\<open>_resize_mask\<close>\<close>

text \<open>\<open>np.min\<close> and \<open>np.max\<close> raise ValueError on an array with no element.\<close>

fun np_min :: "int list \<Rightarrow> error + int" where
  "np_min [] = Inl ValueError"
| "np_min (x # xs) = Inr (fold min xs x)"

fun np_max :: "int list \<Rightarrow> error + int" where
  "np_max [] = Inl ValueError"
| "np_max (x # xs) = Inr (fold max xs x)"

text \<open>\<open>rows, cols = np.where(m)\<close>: the indices of the nonzero entries, row by row.\<close>

definition np_where :: "array2 \<Rightarrow> int list \<times> int list" where
  "np_where m =
     (let idx = concat (map (\<lambda>(r, row). map (\<lambda>(c, v). (r, c))
                  (filter (\<lambda>(c, v). v \<noteq> 0) (enumerate 0 row))) (enumerate 0 m))
      in (map (\<lambda>(r, c). int r) idx, map (\<lambda>(r, c). int c) idx))"

text \<open>The box \<open>[xmin, ymin, xmax, ymax]\<close> of lines 135 to 142.\<close>

definition mask_bdbox :: "array2 \<Rightarrow> error + int list" where
  "mask_bdbox m_resize =
     (case shape2 m_resize of (h, w) \<Rightarrow> (case np_where m_resize of (rows, cols) \<Rightarrow>
        bind_err (np_min cols) (\<lambda>mnc. let xmin = (if mnc \<ge> 0 then mnc else 0) in
        bind_err (np_min rows) (\<lambda>mnr. let ymin = (if mnr \<ge> 0 then mnr else 0) in
        bind_err (np_max cols) (\<lambda>mxc. let xmax = (if mxc \<le> int w then mxc else int w) in
        bind_err (np_max rows) (\<lambda>mxr. let ymax = (if mxr \<le> int h then mxr else int h) in
        Inr [xmin, ymin, xmax, ymax]))))))"

text \<open>One pass of the loop over the masks: the box and the padded mask of one instance.\<close>

definition resize_one_mask :: "env \<Rightarrow> config \<Rightarrow> rat \<Rightarrow> array2 \<Rightarrow> error + (int list \<times> array2)" where
  "resize_one_mask ev cfg im_scale m =
     bind_err (resize_msk ev im_scale m) (\<lambda>r.
       let m_resize = map (map (\<lambda>v. if v \<ge> 1 / 2 then 1 else (0::int))) r in
       bind_err (mask_bdbox m_resize) (\<lambda>bdbox.
       bind_err (place2 (fst (img_shape cfg), fst (snd (img_shape cfg))) m_resize) (\<lambda>mask_blob.
       Inr (bdbox, mask_blob))))"

text \<open>\<open>np.concatenate(blobs, axis=-1)\<close> of blobs of shape \<open>(TH, TW, 1)\<close>.\<close>

definition concat_last :: "nat \<times> nat \<Rightarrow> array2 list \<Rightarrow> array3" where
  "concat_last s blobs = (case s of (TH, TW) \<Rightarrow>
     map (\<lambda>r. map (\<lambda>c. map (\<lambda>b. b ! r ! c) blobs) [0..<TW]) [0..<TH])"

text \<open>
  \<open>np.shape(origin_masks)[0:2]\<close> is (number of masks, mask height); for an empty list
  the shape is \<open>(0,)\<close>, its maximum 0, and the float division raises.
\<close>

definition resize_mask :: "env \<Rightarrow> config \<Rightarrow> array2 list \<Rightarrow> error + (array3 \<times> int list list)" where
  "resize_mask ev cfg origin_masks =
     (let mask_size_max = (case origin_masks of [] \<Rightarrow> 0
                           | m # _ \<Rightarrow> max (length origin_masks) (length m)) in
      if mask_size_max = 0 then Inl ZeroDivisionError
      else
        let im_scale = of_nat (fst (img_shape cfg)) / of_nat mask_size_max in
        bind_err (map_err (resize_one_mask ev cfg im_scale) origin_masks) (\<lambda>per.
          let gt_boxes = map (\<lambda>(b, blob). map int16 b) per;
              masks_resize = concat_last (fst (img_shape cfg), fst (snd (img_shape cfg)))
                               (map snd per)
          in Inr (masks_resize, gt_boxes)))"

subsection \<open>The annotation store\<close>

text \<open>
  An annotation with its box \<open>[x, y, w, h]\<close>, its category, its crowd flag, the mask
  \<open>annToMask\<close> gives for it, and its flat keypoint list (empty when it has none).
\<close>

record annotation =
  bbox :: "rat \<times> rat \<times> rat \<times> rat"
  category_id :: int
  iscrowd :: bool
  ann_mask :: array2
  ann_keypoints :: "int list"

text \<open>What \<open>io.imread\<close> returns: an array of fewer than 2 dimensions, of 2, or of 3.\<close>

datatype raw_image = Undecoded | Gray array2 | Color array3

record coco =
  imgToAnns :: "(nat \<times> annotation list) list"
  imread :: "nat \<Rightarrow> raw_image"

text \<open>\<open>getAnnIds(imgIds=image_id, iscrowd=include_crowd)\<close>, then \<open>anns[i]\<close> for each id.\<close>

definition getAnns :: "config \<Rightarrow> coco \<Rightarrow> nat \<Rightarrow> annotation list" where
  "getAnns cfg co image_id =
     filter (\<lambda>a. iscrowd a = include_crowd cfg)
       (case map_of (imgToAnns co) image_id of None \<Rightarrow> [] | Some l \<Rightarrow> l)"

subsection \<open>\<open>_data_generation\<close>\<close>

text \<open>
  The \<open>img\<close> entry of the output dictionary is the Python list \<open>[]\<close> until line 221
  stores the resized image. The other entries are lists, empty for \<open>[]\<close>.
\<close>

datatype img_field = EmptyList | Blob array3

record sample =
  img :: img_field
  labels :: "int list"
  bboxes :: "int list list"
  masks :: array3
  keypoints :: "int list list list"

text \<open>Lines 170 to 176: the box as corners, through Python's \<open>int\<close>.\<close>

definition box_of :: "annotation \<Rightarrow> int list" where
  "box_of a = (case bbox a of (x, y, w, h) \<Rightarrow>
     let xmin = py_trunc x; ymin = py_trunc y;
         xmax = py_trunc (of_int xmin + w); ymax = py_trunc (of_int ymin + h)
     in [xmin, ymin, xmax, ymax])"

text \<open>\<open>np.reshape(keypoint, [-1, 3])\<close>: ValueError when the length is no multiple of 3.\<close>

fun triples :: "int list \<Rightarrow> int list list" where
  "triples (x # y # v # rest) = [x, y, v] # triples rest"
| "triples _ = []"

definition reshape3 :: "int list \<Rightarrow> error + int list list" where
  "reshape3 k = (if length k mod 3 = 0 then Inr (triples k) else Inl ValueError)"

text \<open>\<open>np.array(xs, dtype=...)\<close> of a list of arrays: ValueError unless all have one shape.\<close>

definition np_array :: "('a \<Rightarrow> nat list) \<Rightarrow> 'a list \<Rightarrow> error + 'a list" where
  "np_array shp xs = (case xs of [] \<Rightarrow> Inr []
     | x # _ \<Rightarrow> if list_all (\<lambda>y. shp y = shp x) xs then Inr xs else Inl ValueError)"

definition shape_kp :: "int list list \<Rightarrow> nat list" where
  "shape_kp k = [length k, 3]"

text \<open>Lines 214 to 216: a 2-d image gets two zero channels.\<close>

definition promote :: "array2 \<Rightarrow> array3" where
  "promote g = map (map (\<lambda>v. [v, 0, 0])) g"

definition data_generation :: "env \<Rightarrow> config \<Rightarrow> coco \<Rightarrow> nat \<Rightarrow> error + sample" where
  "data_generation ev cfg co image_id =
     (let anns = getAnns cfg co image_id;
          bboxes0 = map box_of anns;
          labels0 = map category_id anns;
          masks0 = (if include_mask cfg then map ann_mask anns else [])
      in
      bind_err (if include_keypoint cfg
                then map_err reshape3 (filter (\<lambda>k. k \<noteq> []) (map ann_keypoints anns))
                else Inr []) (\<lambda>keypoints0.
      bind_err (if include_mask cfg
                then bind_err (resize_mask ev cfg masks0) (\<lambda>(m, b). Inr (m, b, b))
                else Inr ([], [], bboxes0)) (\<lambda>(out_masks, out_bboxes, bboxes1).
      bind_err (if include_keypoint cfg
                then bind_err (np_array shape_kp keypoints0)
                       (\<lambda>ks. Inr (map (map (map int8)) ks))
                else Inr []) (\<lambda>out_keypoints.
      let outputs = \<lparr>img = EmptyList, labels = [], bboxes = out_bboxes,
                     masks = out_masks, keypoints = out_keypoints\<rparr> in
      (case (case imread co image_id of Undecoded \<Rightarrow> None
             | Gray g \<Rightarrow> Some (promote g) | Color c \<Rightarrow> Some c) of
         None \<Rightarrow> Inr outputs
       | Some im \<Rightarrow>
           bind_err (resize_im ev cfg im (map (map int16) bboxes1)) (\<lambda>(img_resize, bboxes_resize).
           Inr (outputs\<lparr>img := Blob img_resize, labels := map int8 labels0,
                        bboxes := bboxes_resize\<rparr>)))))))"

subsection \<open>The generator: \<open>load_data\<close>, \<open>_on_epoch_end\<close>, \<open>next_batch\<close>\<close>

record generator =
  img_ids :: "nat list"
  current_batch_index :: nat
  total_batch_size :: nat
  rng :: nat


definition on_epoch_end :: "env \<Rightarrow> generator \<Rightarrow> generator" where
  "on_epoch_end ev g = (case shuffle ev (rng g) (img_ids g) of
     (ids, r) \<Rightarrow> g\<lparr>img_ids := ids, rng := r\<rparr>)"

text \<open>Lines 44 to 46.\<close>

definition rollover :: "env \<Rightarrow> generator \<Rightarrow> generator" where
  "rollover ev g =
     (if current_batch_index g \<ge> total_batch_size g
      then on_epoch_end ev (g\<lparr>current_batch_index := 0\<rparr>) else g)"

text \<open>Lines 48 and 49.\<close>

definition batch_img_ids :: "config \<Rightarrow> generator \<Rightarrow> nat list" where
  "batch_img_ids cfg g =
     take (batch_size cfg) (drop (current_batch_index g * batch_size cfg) (img_ids g))"

record batch_lists =
  batch_imgs :: "img_field list"
  batch_bboxes :: "int list list list"
  batch_labels :: "int list list"
  batch_masks :: "array3 list"
  batch_keypoints :: "int list list list list"

text \<open>\<open>len(np.shape(x))\<close> for the \<open>img\<close> entry: \<open>np.shape([])\<close> is \<open>(0,)\<close>.\<close>

fun ndim_img :: "img_field \<Rightarrow> nat" where
  "ndim_img EmptyList = 1"
| "ndim_img (Blob b) = 3"

text \<open>
  \<open>np.pad(b, [(0, pad_num), (0, 0)])\<close>: ValueError on the 1-d empty \<open>b\<close>, which two
  pairs of widths do not fit.
\<close>

definition np_pad_rows :: "nat \<Rightarrow> int list list \<Rightarrow> error + int list list" where
  "np_pad_rows pad_num b = (case b of [] \<Rightarrow> Inl ValueError
     | r # _ \<Rightarrow> Inr (b @ replicate pad_num (replicate (length r) 0)))"

text \<open>Lines 58 to 73, for one sample.\<close>

definition append_sample :: "config \<Rightarrow> sample \<Rightarrow> batch_lists \<Rightarrow> error + batch_lists" where
  "append_sample cfg data acc =
     (if ndim_img (img data) > 0 then
        bind_err
          (if length (labels data) > max_instances cfg
           then Inr (take (max_instances cfg) (bboxes data),
                     take (max_instances cfg) (labels data))
           else let pad_num = max_instances cfg - length (labels data) in
                bind_err (np_pad_rows pad_num (bboxes data))
                  (\<lambda>b. Inr (b, labels data @ replicate pad_num 0)))
          (\<lambda>(b, l). Inr
             \<lparr>batch_imgs = batch_imgs acc @ [img data],
              batch_bboxes = batch_bboxes acc @ [b],
              batch_labels = batch_labels acc @ [l],
              batch_masks = (if include_mask cfg then batch_masks acc @ [masks data]
                             else batch_masks acc),
              batch_keypoints = (if include_keypoint cfg
                                 then batch_keypoints acc @ [keypoints data]
                                 else batch_keypoints acc)\<rparr>)
      else Inr acc)"

fun collect :: "env \<Rightarrow> config \<Rightarrow> coco \<Rightarrow> nat list \<Rightarrow> batch_lists \<Rightarrow> error + batch_lists" where
  "collect ev cfg co [] acc = Inr acc"
| "collect ev cfg co (img_id # ids) acc =
     bind_err (data_generation ev cfg co img_id) (\<lambda>data.
     bind_err (append_sample cfg data acc) (\<lambda>acc'. collect ev cfg co ids acc'))"

text \<open>Lines 80 to 86: the five \<open>np.array(..., dtype=...)\<close> of the output dictionary.\<close>

record batch =
  imgs :: "array3 list"
  bboxes_b :: "int list list list"
  labels_b :: "int list list"
  masks_b :: "array3 list"
  keypoints_b :: "int list list list list"

definition int32 :: "int \<Rightarrow> int" where
  "int32 x = sint (word_of_int x :: 32 word)"

fun img_array :: "img_field \<Rightarrow> array3" where
  "img_array EmptyList = []"
| "img_array (Blob b) = b"

definition shape_img :: "img_field \<Rightarrow> nat list" where
  "shape_img x = (case x of EmptyList \<Rightarrow> [0]
     | Blob b \<Rightarrow> (case shape3 b of (h, w, c) \<Rightarrow> [h, w, c]))"

definition shape_rows :: "'a list list \<Rightarrow> nat list" where
  "shape_rows b = (case b of [] \<Rightarrow> [0] | r # _ \<Rightarrow> [length b, length r])"

definition shape_cube :: "'a list list list \<Rightarrow> nat list" where
  "shape_cube a = (case a of [] \<Rightarrow> [0]
     | _ # _ \<Rightarrow> (case shape3 a of (h, w, c) \<Rightarrow> [h, w, c]))"

definition stack :: "batch_lists \<Rightarrow> error + batch" where
  "stack acc =
     bind_err (np_array shape_img (batch_imgs acc)) (\<lambda>is.
     bind_err (np_array shape_rows (batch_bboxes acc)) (\<lambda>bs.
     bind_err (np_array (\<lambda>l. [length l]) (batch_labels acc)) (\<lambda>ls.
     bind_err (np_array shape_cube (batch_masks acc)) (\<lambda>ms.
     bind_err (np_array shape_cube (batch_keypoints acc)) (\<lambda>ks.
     Inr \<lparr>imgs = map (\<lambda>i. map (map (map int32)) (img_array i)) is,
          bboxes_b = map (map (map int16)) bs,
          labels_b = map (map int8) ls,
          masks_b = map (map (map (map int8))) ms,
          keypoints_b = map (map (map (map int16))) ks\<rparr>)))))"

text \<open>
  \<open>next_batch\<close>. The fuel is the depth of recursion Python still allows: the result
  \<open>None\<close> is the RecursionError of a retry that never fills a batch. An exception
  leaves the generator as lines 44 to 46 made it.
\<close>

definition empty_lists :: batch_lists where
  "empty_lists = \<lparr>batch_imgs = [], batch_bboxes = [], batch_labels = [],
                   batch_masks = [], batch_keypoints = []\<rparr>"

definition advance :: "generator \<Rightarrow> generator" where
  "advance g = g\<lparr>current_batch_index := current_batch_index g + 1\<rparr>"

fun next_batch ::
  "env \<Rightarrow> config \<Rightarrow> coco \<Rightarrow> nat \<Rightarrow> generator \<Rightarrow> generator \<times> (error + batch) option" where
  "next_batch ev cfg co 0 g = (g, None)"
| "next_batch ev cfg co (Suc fuel) g =
     (let g1 = rollover ev g in
      case collect ev cfg co (batch_img_ids cfg g1) empty_lists of
        Inl e \<Rightarrow> (g1, Some (Inl e))
      | Inr acc \<Rightarrow>
          let g2 = advance g1 in
          if length (batch_imgs acc) < batch_size cfg then next_batch ev cfg co fuel g2
          else (g2, Some (stack acc)))"


subsection \<open>Concrete inputs\<close>

text \<open>
  A stand-in for \<open>cv2.resize\<close> that repeats pixels, for the concrete inputs below only.
  Its output has \<open>round(h * s)\<close> rows and \<open>round(w * s)\<close> columns; with the scale 1 it
  returns its input and on a constant array it returns the constant array, as bilinear
  interpolation does. The stand-in for the shuffle reverses the list.
\<close>

definition out_len :: "rat \<Rightarrow> nat \<Rightarrow> nat" where
  "out_len s n = nat \<lfloor>of_nat n * s + 1 / 2\<rfloor>"

definition resize_nn :: "rat \<Rightarrow> 'a list list \<Rightarrow> 'a list list" where
  "resize_nn s a = (case shape2 a of (h, w) \<Rightarrow>
     map (\<lambda>r. map (\<lambda>c. a ! min (h - 1) (nat \<lfloor>of_nat r / s\<rfloor>)
                        ! min (w - 1) (nat \<lfloor>of_nat c / s\<rfloor>))
       [0..<out_len s w]) [0..<out_len s h])"

definition ex_env :: env where
  "ex_env = \<lparr>resize_img = (\<lambda>s a. Inr (resize_nn s a)),
             resize_msk = (\<lambda>s m. Inr (map (map of_int) (resize_nn s m))),
             shuffle = (\<lambda>r ids. (rev ids, r + 1))\<rparr>"

definition ex_cfg :: config where
  "ex_cfg = \<lparr>img_shape = (2, 2, 3), batch_size = 1, max_instances = 2,
             include_crowd = False, include_mask = False, include_keypoint = False\<rparr>"

definition ex_ann :: annotation where
  "ex_ann = \<lparr>bbox = (0, 0, 2, 2), category_id = 1, iscrowd = False,
             ann_mask = [[1, 1], [1, 1]], ann_keypoints = [200, 100, 2]\<rparr>"

definition ex_img :: array3 where
  "ex_img = [[[5, 5, 5], [5, 5, 5]], [[5, 5, 5], [5, 5, 5]]]"

definition ex_coco :: coco where
  "ex_coco = \<lparr>imgToAnns = [(7, [ex_ann])], imread = (\<lambda>i. Color ex_img)\<rparr>"

definition ex_gen :: generator where
  "ex_gen = \<lparr>img_ids = [7], current_batch_index = 0, total_batch_size = 1, rng = 0\<rparr>"

text \<open>Lines 184 to 188: the keypoint triples of the annotations that carry keypoints.\<close>

definition raw_keypoints :: "config \<Rightarrow> coco \<Rightarrow> nat \<Rightarrow> int list list list" where
  "raw_keypoints cfg co image_id =
     map triples (filter (\<lambda>k. k \<noteq> []) (map ann_keypoints (getAnns cfg co image_id)))"

section \<open>Properties\<close>

subsection \<open>The integer casts\<close>

lemma int8_eq: "int8 x = (x + 128) mod 256 - 128"
  unfolding int8_def
  by (simp add: sint_sbintrunc' signed_take_bit_eq_take_bit_shift take_bit_eq_mod)

lemma int16_eq: "int16 x = (x + 32768) mod 65536 - 32768"
  unfolding int16_def
  by (simp add: sint_sbintrunc' signed_take_bit_eq_take_bit_shift take_bit_eq_mod)

lemma int16_id: "- 32768 \<le> x \<Longrightarrow> x < 32768 \<Longrightarrow> int16 x = x"
  by (simp add: int16_eq)

lemma int8_range: "- 128 \<le> int8 x \<and> int8 x \<le> 127"
  unfolding int8_eq by (smt (verit) pos_mod_bound pos_mod_sign)

lemma int16_int8: "int16 (int8 x) = int8 x"
  using int8_range[of x] by (simp add: int16_id)

subsection \<open>Scaling the boxes\<close>






subsection \<open>Results of the error monad\<close>

lemma bind_err_Inr: "bind_err m f = Inr y \<longleftrightarrow> (\<exists>x. m = Inr x \<and> f x = Inr y)"
  by (cases m) (simp_all add: bind_err_def)

lemma map_err_reshape3: "map_err reshape3 ks = Inr r \<Longrightarrow> r = map triples ks"
  by (induction ks arbitrary: r) (auto simp: bind_err_Inr reshape3_def split: if_splits)

lemma np_array_Inr: "np_array shp xs = Inr ys \<Longrightarrow> ys = xs"
  by (auto simp: np_array_def split: list.splits if_splits)

lemma ndim_img_pos: "0 < ndim_img x"
  by (cases x) simp_all

text \<open>A call that returns a batch stacked the lists of one pass that filled the batch.\<close>

lemma next_batch_Some_Inr:
  assumes "next_batch ev cfg co fuel g = (g', Some (Inr b))"
  shows "\<exists>g1 acc. collect ev cfg co (batch_img_ids cfg g1) empty_lists = Inr acc \<and>
           batch_size cfg \<le> length (batch_imgs acc) \<and> stack acc = Inr b"
  using assms
proof (induction fuel arbitrary: g)
  case 0
  then show ?case by simp
next
  case (Suc fuel)
  show ?case
  proof (cases "collect ev cfg co (batch_img_ids cfg (rollover ev g)) empty_lists")
    case (Inl e)
    with Suc.prems show ?thesis by (simp add: Let_def)
  next
    case (Inr acc)
    show ?thesis
    proof (cases "length (batch_imgs acc) < batch_size cfg")
      case True
      with Inr Suc.prems
      have "next_batch ev cfg co fuel (advance (rollover ev g)) = (g', Some (Inr b))"
        by (simp add: Let_def)
      from Suc.IH[OF this] show ?thesis .
    next
      case False
      with Inr Suc.prems have "stack acc = Inr b" by (simp add: Let_def)
      with Inr False show ?thesis
        by (intro exI[of _ "rollover ev g"] exI[of _ acc]) simp
    qed
  qed
qed

subsection \<open>Keypoints\<close>

lemma data_generation_keypoints:
  assumes "data_generation ev cfg co i = Inr s" and "include_keypoint cfg"
  shows "keypoints s = map (map (map int8)) (raw_keypoints cfg co i)"
  using assms
  unfolding data_generation_def Let_def raw_keypoints_def
  by (auto simp: bind_err_Inr split: option.splits prod.splits
           dest!: map_err_reshape3 np_array_Inr)

lemma append_sample_keypoints:
  assumes "append_sample cfg d acc = Inr acc'" and "include_keypoint cfg"
  shows "batch_keypoints acc' = batch_keypoints acc @ [keypoints d]"
  using assms unfolding append_sample_def
  by (auto simp: bind_err_Inr ndim_img_pos split: if_splits)

lemma collect_keypoints:
  assumes "collect ev cfg co ids acc = Inr acc'" and "include_keypoint cfg"
  shows "batch_keypoints acc' =
           batch_keypoints acc @ map (\<lambda>i. map (map (map int8)) (raw_keypoints cfg co i)) ids"
  using assms
proof (induction ids arbitrary: acc)
  case Nil
  then show ?case by simp
next
  case (Cons i ids)
  from Cons.prems(1) obtain d acc1 where
    d: "data_generation ev cfg co i = Inr d" and a: "append_sample cfg d acc = Inr acc1"
    and c: "collect ev cfg co ids acc1 = Inr acc'"
    by (auto simp: bind_err_Inr)
  from Cons.IH[OF c Cons.prems(2)] append_sample_keypoints[OF a Cons.prems(2)]
    data_generation_keypoints[OF d Cons.prems(2)]
  show ?case by simp
qed

lemma stack_keypoints:
  assumes "stack acc = Inr b"
  shows "keypoints_b b = map (map (map (map int16))) (batch_keypoints acc)"
  using assms unfolding stack_def
  by (auto simp: bind_err_Inr dest!: np_array_Inr)

text \<open>
  C9: with keypoint inclusion enabled, the keypoints of a returned batch are, sample by
  sample, the raw keypoint triples cast to 8 bits by \<open>_data_generation\<close>; the 16-bit cast
  of the batch changes nothing any more. The 8-bit value of \<open>x\<close> is \<open>x\<close> reduced modulo
  256 into -128..127, so it differs from \<open>x\<close> whenever \<open>x\<close> lies outside that range.
\<close>

theorem keypoints_wrap_to_int8:
  assumes "include_keypoint cfg" and "snd (next_batch ev cfg co fuel g) = Some (Inr b)"
  shows "(\<exists>g1. keypoints_b b =
            map (\<lambda>i. map (map (map int8)) (raw_keypoints cfg co i)) (batch_img_ids cfg g1)) \<and>
         (\<forall>x. int8 x = (x + 128) mod 256 - 128 \<and> - 128 \<le> int8 x \<and> int8 x \<le> 127 \<and>
              (x < - 128 \<or> 127 < x \<longrightarrow> int8 x \<noteq> x))"
proof -
  obtain g' where "next_batch ev cfg co fuel g = (g', Some (Inr b))"
    using assms(2) by (cases "next_batch ev cfg co fuel g") simp
  from next_batch_Some_Inr[OF this] obtain g1 acc where
    c: "collect ev cfg co (batch_img_ids cfg g1) empty_lists = Inr acc"
    and s: "stack acc = Inr b"
    by blast
  have "keypoints_b b =
          map (\<lambda>i. map (map (map int8)) (raw_keypoints cfg co i)) (batch_img_ids cfg g1)"
    using collect_keypoints[OF c assms(1)] stack_keypoints[OF s]
    by (simp add: empty_lists_def int16_int8 comp_def)
  moreover have "\<forall>x. int8 x = (x + 128) mod 256 - 128 \<and> - 128 \<le> int8 x \<and> int8 x \<le> 127 \<and>
              (x < - 128 \<or> 127 < x \<longrightarrow> int8 x \<noteq> x)"
    using int8_range int8_eq by (smt (verit))
  ultimately show ?thesis by blast
qed

theorem keypoints_wrap_to_int8_witness:
  "include_keypoint (ex_cfg\<lparr>include_keypoint := True\<rparr>) \<and>
   snd (next_batch ex_env (ex_cfg\<lparr>include_keypoint := True\<rparr>) ex_coco 1 ex_gen) =
     Some (Inr \<lparr>imgs = [ex_img], bboxes_b = [[[0, 0, 2, 2], [0, 0, 0, 0]]],
                labels_b = [[1, 0]], masks_b = [], keypoints_b = [[[[- 56, 100, 2]]]]\<rparr>) \<and>
   (\<exists>g1. [[[[- 56, 100, 2]]]] =
      map (\<lambda>i. map (map (map int8)) (raw_keypoints (ex_cfg\<lparr>include_keypoint := True\<rparr>) ex_coco i))
        (batch_img_ids (ex_cfg\<lparr>include_keypoint := True\<rparr>) g1)) \<and>
   int8 200 = - 56"
proof -
  let ?c = "ex_cfg\<lparr>include_keypoint := True\<rparr>"
  let ?b = "\<lparr>imgs = [ex_img], bboxes_b = [[[0, 0, 2, 2], [0, 0, 0, 0]]],
             labels_b = [[1, 0]], masks_b = [], keypoints_b = [[[[- 56, 100, 2]]]]\<rparr>"
  have h1: "include_keypoint ?c" by simp
  have h2: "snd (next_batch ex_env ?c ex_coco 1 ex_gen) = Some (Inr ?b)"
    by code_simp
  from keypoints_wrap_to_int8[OF h1 h2]
  have "(\<exists>g1. keypoints_b ?b =
            map (\<lambda>i. map (map (map int8)) (raw_keypoints ?c ex_coco i)) (batch_img_ids ?c g1))"
    and "int8 200 = (200 + 128) mod 256 - 128"
    by blast+
  with h1 h2 show ?thesis by simp
qed

text \<open>
  C8 at a concrete input: the annotation's keypoint \<open>(200, 100, 2)\<close> comes out of
  \<open>_data_generation\<close> as \<open>(-56, 100, 2)\<close>. The image is not resized here (scale 1), so the
  change is the 8-bit cast of line 208 alone.
\<close>

theorem keypoint_value_changed:
  "data_generation ex_env (ex_cfg\<lparr>include_keypoint := True\<rparr>) ex_coco 7 =
     Inr \<lparr>img = Blob ex_img, labels = [1], bboxes = [[0, 0, 2, 2]], masks = [],
          keypoints = [[[- 56, 100, 2]]]\<rparr> \<and>
   raw_keypoints (ex_cfg\<lparr>include_keypoint := True\<rparr>) ex_coco 7 = [[[200, 100, 2]]]"
  by code_simp

subsection \<open>The size of a batch\<close>







subsection \<open>The state of the generator\<close>








subsection \<open>The image buffer\<close>









subsection \<open>A failed decode\<close>

text \<open>
  C4, as the code has it: when the fetched image has fewer than 2 dimensions, the
  sample that \<open>_data_generation\<close> returns has an empty \<open>img\<close> and empty \<open>labels\<close>; its
  \<open>bboxes\<close> and \<open>masks\<close> are empty when mask inclusion is disabled and its \<open>keypoints\<close>
  when keypoint inclusion is disabled. With mask inclusion enabled they are the result
  of \<open>_resize_mask\<close>, stored by lines 203 and 204 before the image is fetched, and with
  keypoint inclusion enabled the keypoints are the 8-bit array of line 209.
\<close>

theorem failed_decode_sample:
  assumes "imread co i = Undecoded"
  shows "(\<not> include_mask cfg \<and> \<not> include_keypoint cfg \<longrightarrow>
            data_generation ev cfg co i =
              Inr \<lparr>img = EmptyList, labels = [], bboxes = [], masks = [], keypoints = []\<rparr>) \<and>
         (\<forall>s. data_generation ev cfg co i = Inr s \<longrightarrow>
            img s = EmptyList \<and> labels s = [] \<and>
            (\<not> include_mask cfg \<longrightarrow> bboxes s = [] \<and> masks s = []) \<and>
            (\<not> include_keypoint cfg \<longrightarrow> keypoints s = []) \<and>
            (include_mask cfg \<longrightarrow>
               resize_mask ev cfg (map ann_mask (getAnns cfg co i)) = Inr (masks s, bboxes s)) \<and>
            (include_keypoint cfg \<longrightarrow>
               keypoints s = map (map (map int8)) (raw_keypoints cfg co i)))"
proof -
  have e: "\<not> include_mask cfg \<and> \<not> include_keypoint cfg \<longrightarrow>
            data_generation ev cfg co i =
              Inr \<lparr>img = EmptyList, labels = [], bboxes = [], masks = [], keypoints = []\<rparr>"
    using assms by (simp add: data_generation_def Let_def bind_err_def)
  have r: "img s = EmptyList \<and> labels s = [] \<and>
            (\<not> include_mask cfg \<longrightarrow> bboxes s = [] \<and> masks s = []) \<and>
            (\<not> include_keypoint cfg \<longrightarrow> keypoints s = []) \<and>
            (include_mask cfg \<longrightarrow>
               resize_mask ev cfg (map ann_mask (getAnns cfg co i)) = Inr (masks s, bboxes s))"
    if s: "data_generation ev cfg co i = Inr s" for s
    using s assms
    by (auto simp: data_generation_def Let_def bind_err_Inr split: prod.splits if_splits)
  from e r data_generation_keypoints[of ev cfg co i] show ?thesis by blast
qed

theorem failed_decode_sample_witness:
  "imread (ex_coco\<lparr>imread := (\<lambda>i. Undecoded)\<rparr>) 7 = Undecoded \<and>
   data_generation ex_env ex_cfg (ex_coco\<lparr>imread := (\<lambda>i. Undecoded)\<rparr>) 7 =
     Inr \<lparr>img = EmptyList, labels = [], bboxes = [], masks = [], keypoints = []\<rparr>"
proof -
  have h: "imread (ex_coco\<lparr>imread := (\<lambda>i. Undecoded)\<rparr>) 7 = Undecoded" by simp
  have n: "\<not> include_mask ex_cfg \<and> \<not> include_keypoint ex_cfg" by (simp add: ex_cfg_def)
  from failed_decode_sample[OF h, of ex_cfg ex_env] n
  have "data_generation ex_env ex_cfg (ex_coco\<lparr>imread := (\<lambda>i. Undecoded)\<rparr>) 7 =
     Inr \<lparr>img = EmptyList, labels = [], bboxes = [], masks = [], keypoints = []\<rparr>"
    by blast
  with h show ?thesis by blast
qed

text \<open>
  C4 as stated fails with mask and keypoint inclusion enabled: the sample of a failed
  decode carries the mask-derived box, the mask stack and the keypoints.
\<close>

theorem failed_decode_counterexample:
  "imread (ex_coco\<lparr>imread := (\<lambda>i. Undecoded)\<rparr>) 7 = Undecoded \<and>
   data_generation ex_env (ex_cfg\<lparr>include_mask := True, include_keypoint := True\<rparr>)
     (ex_coco\<lparr>imread := (\<lambda>i. Undecoded)\<rparr>) 7 =
   Inr \<lparr>img = EmptyList, labels = [], bboxes = [[0, 0, 1, 1]],
        masks = [[[1], [1]], [[1], [1]]], keypoints = [[[- 56, 100, 2]]]\<rparr>"
  by code_simp

subsection \<open>Masks and their boxes\<close>

text \<open>A box that \<open>_resize_mask\<close> does derive lies within the resized mask.\<close>

lemma mask_bdbox_bounds:
  assumes "mask_bdbox m = Inr b"
  shows "\<exists>xmin ymin xmax ymax. b = [xmin, ymin, xmax, ymax] \<and> 0 \<le> xmin \<and> 0 \<le> ymin \<and>
           xmax \<le> int (snd (shape2 m)) \<and> ymax \<le> int (fst (shape2 m))"
  using assms unfolding mask_bdbox_def Let_def
  by (auto simp: bind_err_Inr split: prod.splits)

text \<open>
  With mask inclusion enabled and a decoded image, the sample's boxes are the
  mask-derived boxes scaled by \<open>_resize_im\<close>.
\<close>

lemma data_generation_mask_bboxes:
  assumes "data_generation ev cfg co i = Inr s" and "include_mask cfg" and "img s \<noteq> EmptyList"
  shows "\<exists>m b sc. resize_mask ev cfg (map ann_mask (getAnns cfg co i)) = Inr (m, b) \<and>
           masks s = m \<and> bboxes s = resize_boxes sc (map (map int16) b)"
proof -
  from assms(1,2) obtain m b where
    r: "resize_mask ev cfg (map ann_mask (getAnns cfg co i)) = Inr (m, b)"
    unfolding data_generation_def Let_def
    by (auto simp: bind_err_Inr split: prod.splits if_splits)
  from assms r obtain im blob bb where
    "resize_im ev cfg im (map (map int16) b) = Inr (blob, bb)" and "bboxes s = bb" and "masks s = m"
    unfolding data_generation_def Let_def
    by (auto simp: bind_err_Inr split: prod.splits if_splits option.splits)
  then show ?thesis using r
    unfolding resize_im_def Let_def
    by (auto simp: bind_err_Inr split: prod.splits if_splits) metis+
qed

text \<open>Lines 61 to 67 bring the boxes and the labels of a sample to \<open>max_instances\<close> rows.\<close>

lemma padded_to_max_instances:
  assumes "append_sample cfg d acc = Inr acc'" and "length (bboxes d) = length (labels d)"
  shows "length (last (batch_bboxes acc')) = max_instances cfg \<and>
         length (last (batch_labels acc')) = max_instances cfg"
  using assms unfolding append_sample_def np_pad_rows_def Let_def
  by (auto simp: bind_err_Inr ndim_img_pos split: if_splits list.splits)

text \<open>
  C5 at a concrete input: a mask with no nonzero entry after resizing makes \<open>np.min\<close> of
  line 138 raise, and with it \<open>_resize_mask\<close> and \<open>_data_generation\<close>. No box of zeros
  is returned.
\<close>

theorem empty_mask_raises:
  "mask_bdbox [[0, 0], [0, 0]] = Inl ValueError \<and>
   resize_mask ex_env (ex_cfg\<lparr>include_mask := True\<rparr>) [[[0, 0], [0, 0]]] = Inl ValueError \<and>
   data_generation ex_env (ex_cfg\<lparr>include_mask := True\<rparr>)
     (ex_coco\<lparr>imgToAnns := [(7, [ex_ann\<lparr>ann_mask := [[0, 0], [0, 0]]\<rparr>])]\<rparr>) 7 = Inl ValueError"
  by code_simp

text \<open>
  C1 at a concrete input: a 2 x 2 image with one annotation whose mask covers it, and
  the target (4, 4, 3). \<open>_resize_mask\<close> derives the box \<open>[0, 0, 3, 3]\<close> from the resized
  mask; the sample's box is \<open>[0, 0, 6, 6]\<close>, since line 220 scales the mask-derived boxes
  by the image scale 2 once more and line 223 stores the result.
\<close>

theorem mask_boxes_scaled_twice:
  "map_sum id snd
     (resize_mask ex_env (ex_cfg\<lparr>img_shape := (4, 4, 3), include_mask := True\<rparr>)
        (map ann_mask
           (getAnns (ex_cfg\<lparr>img_shape := (4, 4, 3), include_mask := True\<rparr>) ex_coco 7)))
     = Inr [[0, 0, 3, 3]] \<and>
   map_sum id bboxes
     (data_generation ex_env (ex_cfg\<lparr>img_shape := (4, 4, 3), include_mask := True\<rparr>)
        ex_coco 7)
     = Inr [[0, 0, 6, 6]]"
  by code_simp

text \<open>
  C3 at a concrete input: with \<open>max_instances = 2\<close> and one annotation, the boxes and
  labels of the batch have 2 rows, but the mask stack keeps its instance axis of length
  1 and the keypoints their one instance: lines 69 to 73 append both as they are.
\<close>

theorem masks_keypoints_not_padded:
  "max_instances (ex_cfg\<lparr>include_mask := True, include_keypoint := True\<rparr>) = 2 \<and>
   snd (next_batch ex_env (ex_cfg\<lparr>include_mask := True, include_keypoint := True\<rparr>)
          ex_coco 1 ex_gen) =
     Some (Inr \<lparr>imgs = [ex_img], bboxes_b = [[[0, 0, 1, 1], [0, 0, 0, 0]]],
                labels_b = [[1, 0]], masks_b = [[[[1], [1]], [[1], [1]]]],
                keypoints_b = [[[[- 56, 100, 2]]]]\<rparr>)"
  by code_simp

end
